theory Spec2Isabelle
  imports Main "HOL-Library.Word" "HOL-Library.Monad_Syntax"
begin

section \<open>Byte-addressed memory\<close>

text \<open>
  The allocator of \<^verbatim>\<open>mm.c\<close> works on raw memory obtained from \<^verbatim>\<open>mem_sbrk\<close>. Memory is
  modelled as a function from addresses to bytes. Multi-byte objects are little-endian
  (x86-64, the platform of the 8-byte words and pointers the source assumes). Addresses
  are natural numbers; a pointer stored to memory occupies eight bytes and is therefore
  kept modulo \<open>2 ^ 64\<close>. \<open>NULL\<close> is address 0.
\<close>

type_synonym addr = nat
type_synonym memory = "addr \<Rightarrow> 8 word"

fun load :: "memory \<Rightarrow> addr \<Rightarrow> nat \<Rightarrow> nat" where
  "load m a 0 = 0"
| "load m a (Suc n) = unat (m a) + 256 * load m (Suc a) n"

fun store :: "memory \<Rightarrow> addr \<Rightarrow> nat \<Rightarrow> nat \<Rightarrow> memory" where
  "store m a 0 v = m"
| "store m a (Suc n) v = store (m(a := of_nat v)) (Suc a) n (v div 256)"

text \<open>\<^verbatim>\<open>memcpy(dst, src, n)\<close>: the \<open>n\<close> bytes at \<open>src\<close> are copied to \<open>dst\<close>.\<close>

definition memcpy :: "memory \<Rightarrow> addr \<Rightarrow> addr \<Rightarrow> nat \<Rightarrow> memory" where
  "memcpy m dst src n = (\<lambda>x. if dst \<le> x \<and> x < dst + n then m (src + (x - dst)) else m x)"

section \<open>Constants and macros of mm.c\<close>

definition WSIZE :: nat where "WSIZE = 8"
definition DSIZE :: nat where "DSIZE = 16"
definition CHUNKSIZE :: nat where "CHUNKSIZE = 2 ^ 16"
definition OVERHEAD :: nat where "OVERHEAD = 16"
definition MIN_BLOCK_SIZE :: nat where "MIN_BLOCK_SIZE = 32"
definition FREE :: nat where "FREE = 0"
definition ALLOC :: nat where "ALLOC = 1"

text \<open>\<^verbatim>\<open>sizeof(header_t)\<close> and \<^verbatim>\<open>sizeof(footer_t)\<close>: two \<^verbatim>\<open>uint32_t\<close>.\<close>

definition SIZEOF_HEADER :: nat where "SIZEOF_HEADER = 8"

text \<open>The value \<^verbatim>\<open>(void *)-1\<close> by which \<^verbatim>\<open>mem_sbrk\<close> reports failure.\<close>

definition SBRK_FAILED :: addr where "SBRK_FAILED = 2 ^ 64 - 1"

section \<open>Allocator state\<close>

text \<open>
  The two globals of \<^verbatim>\<open>mm.c\<close> (\<^verbatim>\<open>prologue\<close>, \<^verbatim>\<open>freerootptr\<close>), the memory, and the
  state of the growth primitive: the current break and the highest break it grants.
\<close>

record state =
  mem :: memory
  mem_brk :: addr
  mem_max_addr :: addr
  prologue :: addr
  freerootptr :: addr

text \<open>
  Modelled from the spec: \<^verbatim>\<open>mem_sbrk\<close> of \<^verbatim>\<open>memlib.c\<close>, which is not among the sources.
  The growth primitive returns the old break and advances it by \<open>incr\<close> bytes, so the new
  space immediately follows the region granted before; it fails, changing nothing, when
  no more memory is available.
\<close>

definition mem_sbrk :: "state \<Rightarrow> nat \<Rightarrow> addr \<times> state" where
  "mem_sbrk s incr =
     (if mem_max_addr s < mem_brk s + incr then (SBRK_FAILED, s)
      else (mem_brk s, s\<lparr>mem_brk := mem_brk s + incr\<rparr>))"

section \<open>Field access\<close>

text \<open>
  Results are \<open>option\<close> values: \<open>None\<close> stands for an execution without a defined
  outcome, that is a dereference of \<open>NULL\<close>, pointer arithmetic below address 0, or a loop
  that does not terminate.

  A header or footer is one 32-bit unit holding the bit-field pair
  \<^verbatim>\<open>allocated : 1\<close> (bit 0) and \<^verbatim>\<open>block_size : 31\<close> (bits 1 to 31), followed by an unused
  \<^verbatim>\<open>uint32_t\<close>. Assigning to one bit-field keeps the other; assigning to \<^verbatim>\<open>block_size\<close>
  keeps the low 31 bits of the value.
\<close>

definition hdr_size :: "memory \<Rightarrow> addr \<Rightarrow> nat" where
  "hdr_size m p = load m p 4 div 2"

definition hdr_alloc :: "memory \<Rightarrow> addr \<Rightarrow> nat" where
  "hdr_alloc m p = load m p 4 mod 2"

definition put_size :: "memory \<Rightarrow> addr \<Rightarrow> nat \<Rightarrow> memory" where
  "put_size m p v = store m p 4 (2 * (v mod 2 ^ 31) + load m p 4 mod 2)"

definition put_alloc :: "memory \<Rightarrow> addr \<Rightarrow> nat \<Rightarrow> memory" where
  "put_alloc m p v = store m p 4 (2 * (load m p 4 div 2) + v mod 2)"

text \<open>\<^verbatim>\<open>body.next\<close> is at offset 8 of a \<^verbatim>\<open>block_t\<close>, \<^verbatim>\<open>body.prev\<close> at offset 16.\<close>

definition next_of :: "memory \<Rightarrow> addr \<Rightarrow> addr" where
  "next_of m bp = load m (bp + 8) 8"

definition prev_of :: "memory \<Rightarrow> addr \<Rightarrow> addr" where
  "prev_of m bp = load m (bp + 16) 8"

definition put_next :: "memory \<Rightarrow> addr \<Rightarrow> addr \<Rightarrow> memory" where
  "put_next m bp np = store m (bp + 8) 8 np"

definition put_prev :: "memory \<Rightarrow> addr \<Rightarrow> addr \<Rightarrow> memory" where
  "put_prev m bp np = store m (bp + 16) 8 np"

text \<open>The accesses of the source, through a pointer that may be \<open>NULL\<close>.\<close>

definition ptr_sub :: "addr \<Rightarrow> nat \<Rightarrow> addr option" where
  "ptr_sub p n = (if n \<le> p then Some (p - n) else None)"

definition allocated :: "state \<Rightarrow> addr \<Rightarrow> nat option" where
  "allocated s p = (if p = 0 then None else Some (hdr_alloc (mem s) p))"

definition block_size :: "state \<Rightarrow> addr \<Rightarrow> nat option" where
  "block_size s p = (if p = 0 then None else Some (hdr_size (mem s) p))"

definition set_allocated :: "state \<Rightarrow> addr \<Rightarrow> nat \<Rightarrow> state option" where
  "set_allocated s p v = (if p = 0 then None else Some (s\<lparr>mem := put_alloc (mem s) p v\<rparr>))"

definition set_block_size :: "state \<Rightarrow> addr \<Rightarrow> nat \<Rightarrow> state option" where
  "set_block_size s p v = (if p = 0 then None else Some (s\<lparr>mem := put_size (mem s) p v\<rparr>))"

definition GET_NEXT :: "state \<Rightarrow> addr \<Rightarrow> addr option" where
  "GET_NEXT s bp = (if bp = 0 then None else Some (next_of (mem s) bp))"

definition GET_PREV :: "state \<Rightarrow> addr \<Rightarrow> addr option" where
  "GET_PREV s bp = (if bp = 0 then None else Some (prev_of (mem s) bp))"

definition SET_NEXT :: "state \<Rightarrow> addr \<Rightarrow> addr \<Rightarrow> state option" where
  "SET_NEXT s bp np = (if bp = 0 then None else Some (s\<lparr>mem := put_next (mem s) bp np\<rparr>))"

definition SET_PREV :: "state \<Rightarrow> addr \<Rightarrow> addr \<Rightarrow> state option" where
  "SET_PREV s bp np = (if bp = 0 then None else Some (s\<lparr>mem := put_prev (mem s) bp np\<rparr>))"

definition get_footer :: "state \<Rightarrow> addr \<Rightarrow> addr option" where
  "get_footer s block = do {
     sz \<leftarrow> block_size s block;
     ptr_sub (block + sz) SIZEOF_HEADER
   }"

section \<open>The allocator\<close>

subsection \<open>find_fit\<close>

text \<open>
  The first-fit loop \<^verbatim>\<open>for (b = freerootptr; b != NULL; b = b->body.next)\<close>. The loop
  follows pointers read from memory and need not terminate, hence a partial function.
\<close>

partial_function (option) find_fit_from :: "state \<Rightarrow> nat \<Rightarrow> addr \<Rightarrow> addr option" where
  "find_fit_from s asize b =
     (if b = 0 then Some 0
      else do {
        sz \<leftarrow> block_size s b;
        if asize \<le> sz then Some b
        else do {
          n \<leftarrow> GET_NEXT s b;
          find_fit_from s asize n
        }
      })"

declare find_fit_from.simps [code]

definition find_fit :: "state \<Rightarrow> nat \<Rightarrow> addr option" where
  "find_fit s asize = find_fit_from s asize (freerootptr s)"

subsection \<open>place\<close>

text \<open>
  \<^verbatim>\<open>split_size\<close> is a \<^verbatim>\<open>size_t\<close>: the subtraction wraps modulo \<open>2 ^ 64\<close>
  (\<open>asize\<close> is a \<^verbatim>\<open>size_t\<close> argument, at most \<open>2 ^ 64\<close>).
\<close>

definition place :: "state \<Rightarrow> addr \<Rightarrow> nat \<Rightarrow> state option" where
  "place s block asize = do {
     bs \<leftarrow> block_size s block;
     let split_size = (bs + 2 ^ 64 - asize) mod 2 ^ 64;
     if split_size \<ge> MIN_BLOCK_SIZE then do {
       s \<leftarrow> set_block_size s block asize;
       s \<leftarrow> set_allocated s block ALLOC;
       footer \<leftarrow> get_footer s block;
       s \<leftarrow> set_block_size s footer asize;
       s \<leftarrow> set_allocated s footer ALLOC;
       sz \<leftarrow> block_size s block;
       let new_block = block + sz;
       s \<leftarrow> set_block_size s new_block split_size;
       s \<leftarrow> set_allocated s new_block FREE;
       new_footer \<leftarrow> get_footer s new_block;
       s \<leftarrow> set_block_size s new_footer split_size;
       s \<leftarrow> set_allocated s new_footer FREE;
       p \<leftarrow> GET_PREV s block;
       s \<leftarrow> (if p \<noteq> 0 then SET_NEXT s p new_block else Some s);
       n \<leftarrow> GET_NEXT s block;
       s \<leftarrow> (if n \<noteq> 0 then SET_PREV s n new_block else Some s);
       n \<leftarrow> GET_NEXT s block;
       s \<leftarrow> SET_NEXT s new_block n;
       p \<leftarrow> GET_PREV s block;
       s \<leftarrow> SET_PREV s new_block p;
       s \<leftarrow> SET_NEXT s block 0;
       s \<leftarrow> SET_PREV s block 0;
       p \<leftarrow> GET_PREV s new_block;
       Some (if p = 0 then s\<lparr>freerootptr := new_block\<rparr> else s)
     } else do {
       s \<leftarrow> set_allocated s block ALLOC;
       footer \<leftarrow> get_footer s block;
       s \<leftarrow> set_allocated s footer ALLOC;
       p \<leftarrow> GET_PREV s block;
       s \<leftarrow> (if p \<noteq> 0 then do { n \<leftarrow> GET_NEXT s block; SET_NEXT s p n } else Some s);
       n \<leftarrow> GET_NEXT s block;
       s \<leftarrow> (if n \<noteq> 0 then do { p \<leftarrow> GET_PREV s block; SET_PREV s n p } else Some s);
       p \<leftarrow> GET_PREV s block;
       n \<leftarrow> GET_NEXT s block;
       let s = (if p = 0 \<and> n \<noteq> 0 then s\<lparr>freerootptr := n\<rparr> else s);
       let s = (if p = 0 \<and> n = 0 then s\<lparr>freerootptr := 0\<rparr> else s);
       s \<leftarrow> SET_NEXT s block 0;
       SET_PREV s block 0
     }
   }"

subsection \<open>coalesce\<close>

text \<open>Case 1: both neighbours allocated.\<close>

definition coalesce_case1 :: "state \<Rightarrow> addr \<Rightarrow> (addr \<times> state) option" where
  "coalesce_case1 s block =
     (if freerootptr s = 0 \<or> freerootptr s = block then do {
        let s = s\<lparr>freerootptr := block\<rparr>;
        s \<leftarrow> SET_NEXT s (freerootptr s) 0;
        s \<leftarrow> SET_PREV s (freerootptr s) 0;
        Some (block, s)
      } else do {
        s \<leftarrow> SET_NEXT s block (freerootptr s);
        s \<leftarrow> SET_PREV s (freerootptr s) block;
        let s = s\<lparr>freerootptr := block\<rparr>;
        s \<leftarrow> SET_PREV s block 0;
        Some (block, s)
      })"

text \<open>Case 2: previous allocated, next free.\<close>

definition coalesce_case2 :: "state \<Rightarrow> addr \<Rightarrow> addr \<Rightarrow> (addr \<times> state) option" where
  "coalesce_case2 s block next_header = do {
     bs \<leftarrow> block_size s block;
     let next_block = block + bs;
     np \<leftarrow> GET_PREV s next_block;
     s \<leftarrow> (if np \<noteq> 0 then do { nn \<leftarrow> GET_NEXT s next_block; SET_NEXT s np nn } else Some s);
     nn \<leftarrow> GET_NEXT s next_block;
     s \<leftarrow> (if nn \<noteq> 0 then do { np \<leftarrow> GET_PREV s next_block; SET_PREV s nn np } else Some s);
     nn \<leftarrow> GET_NEXT s next_block;
     s \<leftarrow> (if nn \<noteq> 0 \<and> next_block = freerootptr s then do {
            s \<leftarrow> SET_NEXT s block nn;
            nn \<leftarrow> GET_NEXT s next_block;
            s \<leftarrow> SET_PREV s nn block;
            let s = s\<lparr>freerootptr := block\<rparr>;
            s \<leftarrow> SET_PREV s block 0;
            SET_NEXT s next_block 0
          } else if nn = 0 \<and> next_block = freerootptr s then do {
            let s = s\<lparr>freerootptr := block\<rparr>;
            s \<leftarrow> SET_PREV s block 0;
            SET_NEXT s block 0
          } else do {
            s \<leftarrow> SET_NEXT s block (freerootptr s);
            s \<leftarrow> SET_PREV s (freerootptr s) block;
            let s = s\<lparr>freerootptr := block\<rparr>;
            SET_PREV s block 0
          });
     s \<leftarrow> SET_NEXT s next_block 0;
     s \<leftarrow> SET_PREV s next_block 0;
     bs \<leftarrow> block_size s block;
     ns \<leftarrow> block_size s next_header;
     s \<leftarrow> set_block_size s block (bs + ns);
     next_footer \<leftarrow> get_footer s block;
     bs \<leftarrow> block_size s block;
     s \<leftarrow> set_block_size s next_footer bs;
     Some (block, s)
   }"

text \<open>Case 3: previous free, next allocated.\<close>

definition coalesce_case3 :: "state \<Rightarrow> addr \<Rightarrow> addr \<Rightarrow> (addr \<times> state) option" where
  "coalesce_case3 s block prev_footer = do {
     ps \<leftarrow> block_size s prev_footer;
     pf \<leftarrow> ptr_sub prev_footer ps;
     let prev_block = pf + SIZEOF_HEADER;
     pp \<leftarrow> GET_PREV s prev_block;
     s \<leftarrow> (if pp \<noteq> 0 then do { pn \<leftarrow> GET_NEXT s prev_block; SET_NEXT s pp pn } else Some s);
     pn \<leftarrow> GET_NEXT s prev_block;
     s \<leftarrow> (if pn \<noteq> 0 then do { pp \<leftarrow> GET_PREV s prev_block; SET_PREV s pn pp } else Some s);
     pn \<leftarrow> GET_NEXT s prev_block;
     s \<leftarrow> (if pn \<noteq> 0 \<and> prev_block = freerootptr s then do {
            rn \<leftarrow> GET_NEXT s (freerootptr s);
            SET_PREV s rn prev_block
          } else if pn = 0 \<and> prev_block = freerootptr s then Some s
          else do {
            s \<leftarrow> SET_NEXT s prev_block (freerootptr s);
            s \<leftarrow> SET_PREV s (freerootptr s) prev_block;
            Some (s\<lparr>freerootptr := prev_block\<rparr>)
          });
     s \<leftarrow> SET_PREV s prev_block 0;
     s \<leftarrow> SET_PREV s block 0;
     s \<leftarrow> SET_NEXT s block 0;
     ps \<leftarrow> block_size s prev_block;
     bs \<leftarrow> block_size s block;
     s \<leftarrow> set_block_size s prev_block (ps + bs);
     footer \<leftarrow> get_footer s prev_block;
     ps \<leftarrow> block_size s prev_block;
     s \<leftarrow> set_block_size s footer ps;
     Some (prev_block, s)
   }"

text \<open>
  Case 4: both neighbours free. The three branches on how the two neighbours lie in the
  free list are separate definitions.
\<close>

definition coalesce_case4_prev_then_next :: "state \<Rightarrow> addr \<Rightarrow> addr \<Rightarrow> state option" where
  "coalesce_case4_prev_then_next s prev_block next_block = do {
     pp \<leftarrow> GET_PREV s prev_block;
     s \<leftarrow> (if pp \<noteq> 0 then do { nn \<leftarrow> GET_NEXT s next_block; SET_NEXT s pp nn } else Some s);
     nn \<leftarrow> GET_NEXT s next_block;
     s \<leftarrow> (if nn \<noteq> 0 then do { pp \<leftarrow> GET_PREV s prev_block; SET_PREV s nn pp } else Some s);
     nn \<leftarrow> GET_NEXT s next_block;
     let s = (if prev_block = freerootptr s \<and> nn \<noteq> 0 then s\<lparr>freerootptr := nn\<rparr> else s);
     s \<leftarrow> SET_NEXT s prev_block 0;
     s \<leftarrow> SET_PREV s next_block 0;
     pp \<leftarrow> GET_PREV s prev_block;
     nn \<leftarrow> GET_NEXT s next_block;
     s \<leftarrow> (if pp = 0 \<and> nn = 0 then Some s
          else do {
            s \<leftarrow> SET_NEXT s prev_block (freerootptr s);
            s \<leftarrow> SET_PREV s (freerootptr s) prev_block;
            let s = s\<lparr>freerootptr := prev_block\<rparr>;
            SET_PREV s (freerootptr s) 0
          });
     SET_NEXT s next_block 0
   }"

definition coalesce_case4_next_then_prev :: "state \<Rightarrow> addr \<Rightarrow> addr \<Rightarrow> state option" where
  "coalesce_case4_next_then_prev s prev_block next_block = do {
     np \<leftarrow> GET_PREV s next_block;
     s \<leftarrow> (if np \<noteq> 0 then do { pn \<leftarrow> GET_NEXT s prev_block; SET_NEXT s np pn } else Some s);
     pn \<leftarrow> GET_NEXT s prev_block;
     s \<leftarrow> (if pn \<noteq> 0 then do { np \<leftarrow> GET_PREV s next_block; SET_PREV s pn np } else Some s);
     pn \<leftarrow> GET_NEXT s prev_block;
     let s = (if next_block = freerootptr s \<and> pn \<noteq> 0 then s\<lparr>freerootptr := pn\<rparr> else s);
     s \<leftarrow> SET_NEXT s next_block 0;
     s \<leftarrow> SET_PREV s prev_block 0;
     np \<leftarrow> GET_PREV s next_block;
     pn \<leftarrow> GET_NEXT s prev_block;
     s \<leftarrow> (if np = 0 \<and> pn = 0 then Some (s\<lparr>freerootptr := prev_block\<rparr>)
          else if np = 0 \<and> pn \<noteq> 0 then do {
            let s = s\<lparr>freerootptr := prev_block\<rparr>;
            SET_PREV s pn prev_block
          } else do {
            s \<leftarrow> SET_NEXT s prev_block (freerootptr s);
            s \<leftarrow> SET_PREV s (freerootptr s) prev_block;
            let s = s\<lparr>freerootptr := prev_block\<rparr>;
            SET_PREV s (freerootptr s) 0
          });
     SET_PREV s next_block 0
   }"

definition coalesce_case4_apart :: "state \<Rightarrow> addr \<Rightarrow> addr \<Rightarrow> state option" where
  "coalesce_case4_apart s prev_block next_block = do {
     np \<leftarrow> GET_PREV s next_block;
     s \<leftarrow> (if np \<noteq> 0 then do { nn \<leftarrow> GET_NEXT s next_block; SET_NEXT s np nn } else Some s);
     nn \<leftarrow> GET_NEXT s next_block;
     s \<leftarrow> (if nn \<noteq> 0 then do { np \<leftarrow> GET_PREV s next_block; SET_PREV s nn np } else Some s);
     pp \<leftarrow> GET_PREV s prev_block;
     s \<leftarrow> (if pp \<noteq> 0 then do { pn \<leftarrow> GET_NEXT s prev_block; SET_NEXT s pp pn } else Some s);
     pn \<leftarrow> GET_NEXT s prev_block;
     s \<leftarrow> (if pn \<noteq> 0 then do { pp \<leftarrow> GET_PREV s prev_block; SET_PREV s pn pp } else Some s);
     if prev_block \<noteq> freerootptr s \<and> next_block \<noteq> freerootptr s then do {
       s \<leftarrow> SET_NEXT s prev_block (freerootptr s);
       s \<leftarrow> SET_PREV s (freerootptr s) prev_block;
       let s = s\<lparr>freerootptr := prev_block\<rparr>;
       SET_PREV s (freerootptr s) 0
     } else if prev_block = freerootptr s \<and> next_block \<noteq> freerootptr s then do {
       rn \<leftarrow> GET_NEXT s (freerootptr s);
       s \<leftarrow> SET_PREV s rn prev_block;
       rn \<leftarrow> GET_NEXT s (freerootptr s);
       s \<leftarrow> SET_PREV s rn prev_block;
       SET_PREV s (freerootptr s) 0
     } else if prev_block \<noteq> freerootptr s \<and> next_block = freerootptr s then do {
       nn \<leftarrow> GET_NEXT s next_block;
       s \<leftarrow> SET_NEXT s prev_block nn;
       nn \<leftarrow> GET_NEXT s next_block;
       s \<leftarrow> SET_PREV s nn prev_block;
       let s = s\<lparr>freerootptr := prev_block\<rparr>;
       SET_PREV s (freerootptr s) 0
     } else Some s
   }"

definition coalesce_case4 :: "state \<Rightarrow> addr \<Rightarrow> addr \<Rightarrow> addr \<Rightarrow> (addr \<times> state) option" where
  "coalesce_case4 s block prev_footer next_header = do {
     bs \<leftarrow> block_size s block;
     let next_block = block + bs;
     ps \<leftarrow> block_size s prev_footer;
     pf \<leftarrow> ptr_sub prev_footer ps;
     let prev_block = pf + SIZEOF_HEADER;
     pn \<leftarrow> GET_NEXT s prev_block;
     nn \<leftarrow> GET_NEXT s next_block;
     s \<leftarrow> (if pn = next_block then coalesce_case4_prev_then_next s prev_block next_block
          else if nn = prev_block then coalesce_case4_next_then_prev s prev_block next_block
          else coalesce_case4_apart s prev_block next_block);
     ps \<leftarrow> block_size s prev_block;
     bs \<leftarrow> block_size s block;
     ns \<leftarrow> block_size s next_header;
     s \<leftarrow> set_block_size s prev_block (ps + (bs + ns));
     next_footer \<leftarrow> get_footer s prev_block;
     ps \<leftarrow> block_size s prev_block;
     s \<leftarrow> set_block_size s next_footer ps;
     Some (prev_block, s)
   }"

definition coalesce :: "state \<Rightarrow> addr \<Rightarrow> (addr \<times> state) option" where
  "coalesce s block = do {
     prev_footer \<leftarrow> ptr_sub block SIZEOF_HEADER;
     bs \<leftarrow> block_size s block;
     let next_header = block + bs;
     prev_alloc \<leftarrow> allocated s prev_footer;
     next_alloc \<leftarrow> allocated s next_header;
     if prev_alloc \<noteq> 0 \<and> next_alloc \<noteq> 0 then coalesce_case1 s block
     else if prev_alloc \<noteq> 0 \<and> next_alloc = 0 then coalesce_case2 s block next_header
     else if prev_alloc = 0 \<and> next_alloc \<noteq> 0 then coalesce_case3 s block prev_footer
     else coalesce_case4 s block prev_footer next_header
   }"

subsection \<open>extend_heap\<close>

text \<open>\<^verbatim>\<open>size\<close> is a \<^verbatim>\<open>uint32_t\<close>: \<^verbatim>\<open>words << 3\<close> is kept modulo \<open>2 ^ 32\<close>.\<close>

definition extend_heap :: "state \<Rightarrow> nat \<Rightarrow> (addr \<times> state) option" where
  "extend_heap s words =
     (let size = (words * 8) mod 2 ^ 32 in
      if size = 0 then Some (0, s)
      else (case mem_sbrk s size of (block, s) \<Rightarrow>
        if block = SBRK_FAILED then Some (0, s)
        else do {
          block \<leftarrow> ptr_sub block SIZEOF_HEADER;
          s \<leftarrow> set_allocated s block FREE;
          s \<leftarrow> set_block_size s block size;
          block_footer \<leftarrow> get_footer s block;
          s \<leftarrow> set_allocated s block_footer FREE;
          bs \<leftarrow> block_size s block;
          s \<leftarrow> set_block_size s block_footer bs;
          let new_epilogue = block_footer + SIZEOF_HEADER;
          s \<leftarrow> set_allocated s new_epilogue ALLOC;
          s \<leftarrow> set_block_size s new_epilogue 0;
          s \<leftarrow> (if freerootptr s = 0 then do {
                 let s = s\<lparr>freerootptr := block\<rparr>;
                 s \<leftarrow> SET_NEXT s block 0;
                 SET_PREV s block 0
               } else Some s);
          coalesce s block
        }))"

subsection \<open>The public operations\<close>

text \<open>\<^verbatim>\<open>mm_init\<close> returns 0, or -1 when the initial chunk cannot be obtained.\<close>

definition mm_init :: "state \<Rightarrow> (int \<times> state) option" where
  "mm_init s =
     (case mem_sbrk s CHUNKSIZE of (p, s) \<Rightarrow>
        let s = s\<lparr>prologue := p\<rparr> in
        if prologue s = SBRK_FAILED then Some (- 1, s)
        else do {
          s \<leftarrow> set_allocated s (prologue s) ALLOC;
          s \<leftarrow> set_block_size s (prologue s) SIZEOF_HEADER;
          let init_block = prologue s + SIZEOF_HEADER;
          s \<leftarrow> set_allocated s init_block FREE;
          s \<leftarrow> set_block_size s init_block (CHUNKSIZE - OVERHEAD);
          let s = s\<lparr>freerootptr := init_block\<rparr>;
          s \<leftarrow> SET_NEXT s (freerootptr s) 0;
          s \<leftarrow> SET_PREV s (freerootptr s) 0;
          init_footer \<leftarrow> get_footer s init_block;
          s \<leftarrow> set_allocated s init_footer FREE;
          bs \<leftarrow> block_size s init_block;
          s \<leftarrow> set_block_size s init_footer bs;
          bs \<leftarrow> block_size s init_block;
          let epilogue = init_block + bs;
          s \<leftarrow> set_allocated s epilogue ALLOC;
          s \<leftarrow> set_block_size s epilogue 0;
          Some (0, s)
        })"

text \<open>
  \<^verbatim>\<open>size\<close> is a \<^verbatim>\<open>size_t\<close> (arithmetic modulo \<open>2 ^ 64\<close>); \<^verbatim>\<open>asize\<close>, \<^verbatim>\<open>extendsize\<close>
  and \<^verbatim>\<open>extendwords\<close> are \<^verbatim>\<open>uint32_t\<close>. The result is the payload address
  \<^verbatim>\<open>block->body.payload\<close>, 8 bytes after the header, or 0 for \<open>NULL\<close>.
\<close>

definition adjusted_size :: "nat \<Rightarrow> nat" where
  "adjusted_size size' =
     (let size' = (size' + OVERHEAD) mod 2 ^ 64;
          asize = ((size' + 7) mod 2 ^ 64 div 8 * 8) mod 2 ^ 32
      in if asize < MIN_BLOCK_SIZE then MIN_BLOCK_SIZE else asize)"

definition mm_malloc :: "state \<Rightarrow> nat \<Rightarrow> (addr \<times> state) option" where
  "mm_malloc s size' =
     (if size' = 0 then Some (0, s)
      else do {
        let asize = adjusted_size size';
        block \<leftarrow> find_fit s asize;
        if block \<noteq> 0 then do {
          s \<leftarrow> place s block asize;
          Some (block + SIZEOF_HEADER, s)
        } else do {
          let extendsize = (if asize > CHUNKSIZE then asize else CHUNKSIZE);
          let extendwords = extendsize div 8;
          (block, s) \<leftarrow> extend_heap s extendwords;
          if block \<noteq> 0 then do {
            s \<leftarrow> place s block asize;
            Some (block + SIZEOF_HEADER, s)
          } else Some (0, s)
        }
      })"

definition mm_free :: "state \<Rightarrow> addr \<Rightarrow> state option" where
  "mm_free s payload = do {
     block \<leftarrow> ptr_sub payload SIZEOF_HEADER;
     s \<leftarrow> set_allocated s block FREE;
     footer \<leftarrow> get_footer s block;
     s \<leftarrow> set_allocated s footer FREE;
     (r, s) \<leftarrow> coalesce s block;
     Some s
   }"

text \<open>
  \<^verbatim>\<open>mm_realloc\<close> either returns the new pointer or leaves through \<^verbatim>\<open>exit(1)\<close> (after
  printing a message, which is not modelled).
\<close>

datatype 'a outcome = Returned 'a | Exited nat

definition mm_realloc :: "state \<Rightarrow> addr \<Rightarrow> nat \<Rightarrow> (addr \<times> state) outcome option" where
  "mm_realloc s ptr size' = do {
     (newp, s) \<leftarrow> mm_malloc s size';
     if newp = 0 then Some (Exited 1)
     else do {
       block \<leftarrow> ptr_sub ptr SIZEOF_HEADER;
       bs \<leftarrow> block_size s block;
       let copySize = (if size' < bs then size' else bs);
       let s = s\<lparr>mem := memcpy (mem s) newp ptr copySize\<rparr>;
       s \<leftarrow> mm_free s ptr;
       Some (Returned (newp, s))
     }
   }"

subsection \<open>Walking the heap and the free list\<close>

text \<open>
  The loop of \<^verbatim>\<open>mm_checkheap\<close>: from the block after the prologue, block by block, up to
  the first header of size 0 (the epilogue). It yields the blocks visited.
\<close>

partial_function (option) heap_walk :: "state \<Rightarrow> addr \<Rightarrow> addr list option" where
  "heap_walk s block = do {
     sz \<leftarrow> block_size s block;
     if sz > 0 then do {
       rest \<leftarrow> heap_walk s (block + sz);
       Some (block # rest)
     } else Some []
   }"

declare heap_walk.simps [code]

definition heap_blocks :: "state \<Rightarrow> addr list option" where
  "heap_blocks s = do {
     psz \<leftarrow> block_size s (prologue s);
     heap_walk s (prologue s + psz)
   }"

text \<open>The traversal of \<^verbatim>\<open>find_fit\<close> without the size test: the entries of the free list.\<close>

partial_function (option) list_from :: "state \<Rightarrow> addr \<Rightarrow> addr list option" where
  "list_from s b =
     (if b = 0 then Some []
      else do {
        n \<leftarrow> GET_NEXT s b;
        rest \<leftarrow> list_from s n;
        Some (b # rest)
      })"

declare list_from.simps [code]

definition free_list :: "state \<Rightarrow> addr list option" where
  "free_list s = list_from s (freerootptr s)"

section \<open>Concrete heaps\<close>

text \<open>
  An arena of 20 MiB starting at address 4096, before \<^verbatim>\<open>mm_init\<close>, and the heap right
  after \<^verbatim>\<open>mm_init\<close>. \<open>small_boot\<close> is an arena of exactly one chunk, which can never grow.
\<close>

definition boot :: state where
  "boot = \<lparr>mem = (\<lambda>_. 0), mem_brk = 4096, mem_max_addr = 4096 + 20 * 2 ^ 20,
            prologue = 0, freerootptr = 0\<rparr>"

definition fresh_heap :: state where
  "fresh_heap = (case mm_init boot of Some (r, s) \<Rightarrow> s | None \<Rightarrow> boot)"

definition small_boot :: state where
  "small_boot = \<lparr>mem = (\<lambda>_. 0), mem_brk = 4096, mem_max_addr = 4096 + 2 ^ 16,
            prologue = 0, freerootptr = 0\<rparr>"

definition small_heap :: state where
  "small_heap = (case mm_init small_boot of Some (r, s) \<Rightarrow> s | None \<Rightarrow> small_boot)"

section \<open>Memory lemmas\<close>

lemma load_less: "load m a n < 256 ^ n"
proof (induction n arbitrary: a)
  case 0
  show ?case by simp
next
  case (Suc n)
  have "unat (m a) < 256" using unsigned_less [of "m a"] by simp
  moreover have "load m (Suc a) n < 256 ^ n" by (rule Suc.IH)
  ultimately show ?case by simp
qed

lemma store_outside: "x < a \<or> a + n \<le> x \<Longrightarrow> store m a n v x = m x"
  by (induction n arbitrary: m a v) auto

lemma load_cong_range: "(\<And>i. i < n \<Longrightarrow> m1 (a + i) = m2 (a + i)) \<Longrightarrow> load m1 a n = load m2 a n"
proof (induction n arbitrary: a)
  case 0
  show ?case by simp
next
  case (Suc n)
  have "m1 a = m2 a" using Suc.prems [of 0] by simp
  moreover have "load m1 (Suc a) n = load m2 (Suc a) n"
    by (rule Suc.IH) (use Suc.prems in force)
  ultimately show ?case by simp
qed

lemma load_store_disj: "a + n \<le> b \<or> b + k \<le> a \<Longrightarrow> load (store m a n v) b k = load m b k"
  by (rule load_cong_range) (auto intro: store_outside)

lemma load_store_same: "load (store m a n v) a n = v mod 256 ^ n"
proof (induction n arbitrary: m a v)
  case 0
  show ?case by simp
next
  case (Suc n)
  have "store (m(a := of_nat v)) (Suc a) n (v div 256) a = (of_nat v :: 8 word)"
    by (simp add: store_outside)
  moreover have "unat (of_nat v :: 8 word) = v mod 256"
    by (simp add: unat_of_nat)
  ultimately show ?case
    by (simp add: Suc.IH mod_mult2_eq)
qed

lemma load_memcpy_outside: "b + k \<le> dst \<or> dst + n \<le> b \<Longrightarrow> load (memcpy m dst src n) b k = load m b k"
  by (rule load_cong_range) (auto simp: memcpy_def)

lemma hdr_size_less: "hdr_size m p < 2 ^ 31"
  using load_less [of m p 4] by (simp add: hdr_size_def)

lemma hdr_alloc_le: "hdr_alloc m p \<le> 1"
  by (simp add: hdr_alloc_def)

lemma next_of_less: "next_of m p < 2 ^ 64"
  using load_less [of m "p + 8" 8] by (simp add: next_of_def)

lemma prev_of_less: "prev_of m p < 2 ^ 64"
  using load_less [of m "p + 16" 8] by (simp add: prev_of_def)

lemma hdr_size_put_size: "hdr_size (put_size m p v) p = v mod 2 ^ 31"
proof -
  have "2 * (v mod 2 ^ 31) + load m p 4 mod 2 < 2 ^ 32"
  proof -
    have "v mod 2 ^ 31 < 2 ^ 31" by simp
    then show ?thesis by simp
  qed
  then show ?thesis by (simp add: hdr_size_def put_size_def load_store_same)
qed

lemma hdr_alloc_put_size: "hdr_alloc (put_size m p v) p = hdr_alloc m p"
proof -
  have "2 * (v mod 2 ^ 31) + load m p 4 mod 2 < 2 ^ 32"
  proof -
    have "v mod 2 ^ 31 < 2 ^ 31" by simp
    then show ?thesis by simp
  qed
  then show ?thesis by (simp add: hdr_alloc_def put_size_def load_store_same)
qed

lemma put_alloc_word_less: "2 * (load m p 4 div 2) + v mod 2 < 2 ^ 32"
proof -
  have "load m p 4 div 2 < 2 ^ 31" using load_less [of m p 4] by simp
  moreover have "v mod 2 < 2" by simp
  ultimately show ?thesis by simp
qed

lemma hdr_size_put_alloc: "hdr_size (put_alloc m p v) p = hdr_size m p"
  using put_alloc_word_less [of m p v]
  by (simp add: hdr_size_def put_alloc_def load_store_same)

lemma hdr_alloc_put_alloc: "hdr_alloc (put_alloc m p v) p = v mod 2"
  using put_alloc_word_less [of m p v]
  by (simp add: hdr_alloc_def put_alloc_def load_store_same)


subsection \<open>Reading a field after a write\<close>

lemma hdr_size_store: "a + n \<le> p \<or> p + 4 \<le> a \<Longrightarrow> hdr_size (store m a n v) p = hdr_size m p"
  unfolding hdr_size_def by (subst load_store_disj) auto

lemma hdr_alloc_store: "a + n \<le> p \<or> p + 4 \<le> a \<Longrightarrow> hdr_alloc (store m a n v) p = hdr_alloc m p"
  unfolding hdr_alloc_def by (subst load_store_disj) auto

lemma next_of_store: "a + n \<le> b + 8 \<or> b + 16 \<le> a \<Longrightarrow> next_of (store m a n v) b = next_of m b"
  unfolding next_of_def by (subst load_store_disj) auto

lemma prev_of_store: "a + n \<le> b + 16 \<or> b + 24 \<le> a \<Longrightarrow> prev_of (store m a n v) b = prev_of m b"
  unfolding prev_of_def by (subst load_store_disj) auto

lemma hdr_size_put_size_other: "q + 4 \<le> p \<or> p + 4 \<le> q \<Longrightarrow> hdr_size (put_size m q v) p = hdr_size m p"
  unfolding put_size_def by (rule hdr_size_store) arith
lemma hdr_size_put_alloc_other: "q + 4 \<le> p \<or> p + 4 \<le> q \<Longrightarrow> hdr_size (put_alloc m q v) p = hdr_size m p"
  unfolding put_alloc_def by (rule hdr_size_store) arith
lemma hdr_size_put_next: "b + 16 \<le> p \<or> p + 4 \<le> b + 8 \<Longrightarrow> hdr_size (put_next m b v) p = hdr_size m p"
  unfolding put_next_def by (rule hdr_size_store) arith
lemma hdr_size_put_prev: "b + 24 \<le> p \<or> p + 4 \<le> b + 16 \<Longrightarrow> hdr_size (put_prev m b v) p = hdr_size m p"
  unfolding put_prev_def by (rule hdr_size_store) arith

lemma hdr_alloc_put_size_other: "q + 4 \<le> p \<or> p + 4 \<le> q \<Longrightarrow> hdr_alloc (put_size m q v) p = hdr_alloc m p"
  unfolding put_size_def by (rule hdr_alloc_store) arith
lemma hdr_alloc_put_alloc_other: "q + 4 \<le> p \<or> p + 4 \<le> q \<Longrightarrow> hdr_alloc (put_alloc m q v) p = hdr_alloc m p"
  unfolding put_alloc_def by (rule hdr_alloc_store) arith
lemma hdr_alloc_put_next: "b + 16 \<le> p \<or> p + 4 \<le> b + 8 \<Longrightarrow> hdr_alloc (put_next m b v) p = hdr_alloc m p"
  unfolding put_next_def by (rule hdr_alloc_store) arith
lemma hdr_alloc_put_prev: "b + 24 \<le> p \<or> p + 4 \<le> b + 16 \<Longrightarrow> hdr_alloc (put_prev m b v) p = hdr_alloc m p"
  unfolding put_prev_def by (rule hdr_alloc_store) arith

lemma next_of_put_next: "next_of (put_next m b v) b = v mod 2 ^ 64"
  by (simp add: next_of_def put_next_def load_store_same)
lemma next_of_put_next_other: "c + 8 \<le> b \<or> b + 8 \<le> c \<Longrightarrow> next_of (put_next m c v) b = next_of m b"
  unfolding put_next_def by (rule next_of_store) arith
lemma next_of_put_prev: "c + 16 \<le> b \<or> b \<le> c \<Longrightarrow> next_of (put_prev m c v) b = next_of m b"
  unfolding put_prev_def by (rule next_of_store) arith
lemma next_of_put_size: "q + 4 \<le> b + 8 \<or> b + 16 \<le> q \<Longrightarrow> next_of (put_size m q v) b = next_of m b"
  unfolding put_size_def by (rule next_of_store) arith
lemma next_of_put_alloc: "q + 4 \<le> b + 8 \<or> b + 16 \<le> q \<Longrightarrow> next_of (put_alloc m q v) b = next_of m b"
  unfolding put_alloc_def by (rule next_of_store) arith

lemma prev_of_put_prev: "prev_of (put_prev m b v) b = v mod 2 ^ 64"
  by (simp add: prev_of_def put_prev_def load_store_same)
lemma prev_of_put_prev_other: "c + 8 \<le> b \<or> b + 8 \<le> c \<Longrightarrow> prev_of (put_prev m c v) b = prev_of m b"
  unfolding put_prev_def by (rule prev_of_store) arith
lemma prev_of_put_next: "c \<le> b \<or> b + 16 \<le> c \<Longrightarrow> prev_of (put_next m c v) b = prev_of m b"
  unfolding put_next_def by (rule prev_of_store) arith
lemma prev_of_put_size: "q + 4 \<le> b + 16 \<or> b + 24 \<le> q \<Longrightarrow> prev_of (put_size m q v) b = prev_of m b"
  unfolding put_size_def by (rule prev_of_store) arith
lemma prev_of_put_alloc: "q + 4 \<le> b + 16 \<or> b + 24 \<le> q \<Longrightarrow> prev_of (put_alloc m q v) b = prev_of m b"
  unfolding put_alloc_def by (rule prev_of_store) arith

lemma hdr_size_put_size_eq: "p = q \<Longrightarrow> hdr_size (put_size m q v) p = v mod 2 ^ 31"
  by (simp add: hdr_size_put_size)
lemma hdr_alloc_put_size_eq: "p = q \<Longrightarrow> hdr_alloc (put_size m q v) p = hdr_alloc m p"
  by (simp add: hdr_alloc_put_size)
lemma hdr_size_put_alloc_eq: "p = q \<Longrightarrow> hdr_size (put_alloc m q v) p = hdr_size m p"
  by (simp add: hdr_size_put_alloc)
lemma hdr_alloc_put_alloc_eq: "p = q \<Longrightarrow> hdr_alloc (put_alloc m q v) p = v mod 2"
  by (simp add: hdr_alloc_put_alloc)
lemma next_of_put_next_eq: "b = c \<Longrightarrow> next_of (put_next m c v) b = v mod 2 ^ 64"
  by (simp add: next_of_put_next)
lemma prev_of_put_prev_eq: "b = c \<Longrightarrow> prev_of (put_prev m c v) b = v mod 2 ^ 64"
  by (simp add: prev_of_put_prev)

lemmas field_simps_eq = hdr_size_put_size_eq hdr_alloc_put_size_eq hdr_size_put_alloc_eq hdr_alloc_put_alloc_eq
  next_of_put_next_eq prev_of_put_prev_eq

lemmas field_simps_same = hdr_size_put_size hdr_alloc_put_size hdr_size_put_alloc hdr_alloc_put_alloc
  next_of_put_next prev_of_put_prev
lemmas field_frames = hdr_size_put_size_other hdr_size_put_alloc_other hdr_size_put_next hdr_size_put_prev
  hdr_alloc_put_size_other hdr_alloc_put_alloc_other hdr_alloc_put_next hdr_alloc_put_prev
  next_of_put_next_other next_of_put_prev next_of_put_size next_of_put_alloc
  prev_of_put_prev_other prev_of_put_next prev_of_put_size prev_of_put_alloc

lemmas access_defs = ptr_sub_def allocated_def block_size_def set_allocated_def set_block_size_def
  GET_NEXT_def GET_PREV_def SET_NEXT_def SET_PREV_def get_footer_def
lemmas const_defs = WSIZE_def DSIZE_def CHUNKSIZE_def OVERHEAD_def MIN_BLOCK_SIZE_def FREE_def ALLOC_def
  SIZEOF_HEADER_def SBRK_FAILED_def

subsection \<open>Unrolling the loops\<close>

lemma find_fit_from_null: "find_fit_from s asize 0 = Some 0"
  by (subst find_fit_from.simps) simp

lemma find_fit_from_step:
  "b \<noteq> 0 \<Longrightarrow> find_fit_from s asize b =
     (if asize \<le> hdr_size (mem s) b then Some b else find_fit_from s asize (next_of (mem s) b))"
  by (subst find_fit_from.simps) (simp add: block_size_def GET_NEXT_def)

lemma heap_walk_step:
  "b \<noteq> 0 \<Longrightarrow> heap_walk s b =
     (if hdr_size (mem s) b > 0 then map_option (Cons b) (heap_walk s (b + hdr_size (mem s) b)) else Some [])"
  by (subst heap_walk.simps) (simp add: block_size_def map_option_case split: option.splits)

lemma list_from_null: "list_from s 0 = Some []"
  by (subst list_from.simps) simp

lemma list_from_step:
  "b \<noteq> 0 \<Longrightarrow> list_from s b = map_option (Cons b) (list_from s (next_of (mem s) b))"
  by (subst list_from.simps) (simp add: GET_NEXT_def map_option_case split: option.splits)

lemmas loop_simps = find_fit_from_null find_fit_from_step heap_walk_step list_from_null list_from_step


lemmas run_defs = mm_init_def mm_malloc_def mm_free_def adjusted_size_def find_fit_def place_def
  mem_sbrk_def extend_heap_def coalesce_def coalesce_case1_def coalesce_case2_def
  coalesce_case3_def coalesce_case4_def coalesce_case4_prev_then_next_def
  coalesce_case4_next_then_prev_def coalesce_case4_apart_def heap_blocks_def free_list_def
  access_defs const_defs field_simps_same field_simps_eq field_frames loop_simps Let_def

section \<open>Allocation on a fresh heap\<close>

text \<open>
  Claim C9. Right after a successful \<^verbatim>\<open>mm_init\<close> the heap holds one free block of 65520
  bytes. \<^verbatim>\<open>mm_malloc(16)\<close> then returns a non-null pointer, the payload of that block,
  and the block is split: an allocated block of exactly 32 bytes, followed by a free
  block of the original size minus 32, which is the only entry of the free list.
\<close>

theorem fresh_heap_allocate_16:
  assumes "mm_init s0 = Some (0, s)"
  shows "heap_blocks s = Some [prologue s + 8] \<and> free_list s = Some [prologue s + 8] \<and>
    block_size s (prologue s + 8) = Some 65520 \<and> allocated s (prologue s + 8) = Some 0 \<and>
    (case mm_malloc s 16 of None \<Rightarrow> False
     | Some (p, s') \<Rightarrow> p \<noteq> 0 \<and> p = prologue s + 16 \<and>
         heap_blocks s' = Some [prologue s + 8, prologue s + 40] \<and>
         block_size s' (prologue s + 8) = Some 32 \<and> allocated s' (prologue s + 8) = Some 1 \<and>
         block_size s' (prologue s + 40) = Some (65520 - 32) \<and>
         allocated s' (prologue s + 40) = Some 0 \<and>
         free_list s' = Some [prologue s + 40])"
  using assms
  apply (clarsimp simp: mm_init_def mem_sbrk_def access_defs const_defs field_simps_same
      field_simps_eq field_frames Let_def split: if_splits)
  apply (simp add: run_defs)
  done

lemma mm_init_boot: "mm_init boot = Some (0, fresh_heap)"
  by (simp add: fresh_heap_def boot_def mm_init_def mem_sbrk_def access_defs const_defs Let_def)

lemma prologue_fresh_heap: "prologue fresh_heap = 4096"
  by (simp add: fresh_heap_def boot_def mm_init_def mem_sbrk_def access_defs const_defs Let_def)

theorem fresh_heap_allocate_16_witness:
  "mm_init boot = Some (0, fresh_heap) \<and> heap_blocks fresh_heap = Some [4104] \<and>
   block_size fresh_heap 4104 = Some 65520 \<and>
   (case mm_malloc fresh_heap 16 of None \<Rightarrow> False
    | Some (p, s') \<Rightarrow> p = 4112 \<and> heap_blocks s' = Some [4104, 4136] \<and>
        block_size s' 4104 = Some 32 \<and> block_size s' 4136 = Some 65488)"
  using fresh_heap_allocate_16 [OF mm_init_boot] mm_init_boot
  by (auto simp: prologue_fresh_heap split: option.splits)

section \<open>Reallocation to size 0\<close>

text \<open>
  Claim C10. \<^verbatim>\<open>mm_malloc(0)\<close> is a request that returns \<open>NULL\<close> and changes nothing;
  \<^verbatim>\<open>mm_realloc(p, 0)\<close>, for every pointer \<open>p\<close> and in every state, takes that \<open>NULL\<close> for
  an allocation failure and leaves through \<^verbatim>\<open>exit(1)\<close>: it never returns.
\<close>

theorem realloc_zero_exits:
  "mm_malloc s 0 = Some (0, s) \<and> mm_realloc s p 0 = Some (Exited 1)"
  by (simp add: mm_malloc_def mm_realloc_def)

end
